theory Spec2Isabelle
  imports Main
begin

section \<open>Python values, exceptions and the process state\<close>

text \<open>
  The module \<^verbatim>\<open>aws_sso_example.py\<close> is a catalogue of coroutine functions around
  one decorator, \<^verbatim>\<open>handle_aws_errors\<close>. The embedding keeps three layers apart:
  plain data (\<open>pyval\<close>), exceptions (\<open>exc\<close>) and the objects a name of the module can be
  bound to (\<open>pyobj\<close>: data, a coroutine function, a coroutine object).

  A Python \<^verbatim>\<open>str\<close> is represented by the bytes of its UTF-8 encoding, so that the one
  non-ASCII character of the source (U+274C, the cross mark) is three \<open>char\<close>s.
  A \<^verbatim>\<open>dict\<close> with string keys is an association list read with \<open>map_of\<close>.
\<close>

datatype pyval =
    PyNone
  | PyStr string
  | PyInt int
  | PyList "pyval list"
  | PyDict "(string \<times> pyval) list"

text \<open>
  The exception classes that occur in the module or that its expressions can raise.
  \<open>ClientError\<close> carries its \<^verbatim>\<open>response\<close> attribute and the operation name,
  \<open>TokenRetrievalError\<close> its provider and message (both classes come from botocore),
  \<open>AWSCredentialError\<close> is the class defined in the module, \<open>CancelledError\<close> is the
  signal asyncio throws into a cancelled task, \<open>OtherError\<close> stands for every other class
  (class name and message).
\<close>

datatype exc =
    TokenRetrievalError string string
  | ClientError pyval string
  | AWSCredentialError string
  | CancelledError
  | KeyError string
  | TypeError string
  | AttributeError string
  | OtherError string string

text \<open>\<^verbatim>\<open>type(v).__name__\<close>, as it appears in the messages of the interpreter.\<close>

fun type_name :: "pyval \<Rightarrow> string" where
  "type_name PyNone = ''NoneType''"
| "type_name (PyStr _) = ''str''"
| "type_name (PyInt _) = ''int''"
| "type_name (PyList _) = ''list''"
| "type_name (PyDict _) = ''dict''"

text \<open>\<^verbatim>\<open>d[k]\<close> for a string key: a missing key raises \<^verbatim>\<open>KeyError\<close>, a receiver that is
  no dict raises \<^verbatim>\<open>TypeError\<close>.\<close>

fun getitem :: "pyval \<Rightarrow> string \<Rightarrow> exc + pyval" where
  "getitem (PyDict kvs) k = (case map_of kvs k of None \<Rightarrow> Inl (KeyError k) | Some v \<Rightarrow> Inr v)"
| "getitem (PyStr _) k = Inl (TypeError ''string indices must be integers'')"
| "getitem (PyList _) k = Inl (TypeError ''list indices must be integers or slices, not str'')"
| "getitem (PyInt _) k = Inl (TypeError '''int' object is not subscriptable'')"
| "getitem PyNone k = Inl (TypeError '''NoneType' object is not subscriptable'')"

text \<open>\<^verbatim>\<open>d.get(k)\<close>: the value, or \<^verbatim>\<open>None\<close> for a missing key; only a dict has the method.\<close>

fun dict_get :: "pyval \<Rightarrow> string \<Rightarrow> exc + pyval" where
  "dict_get (PyDict kvs) k = Inr (case map_of kvs k of None \<Rightarrow> PyNone | Some v \<Rightarrow> v)"
| "dict_get v k =
     Inl (AttributeError (CHR 0x27 # type_name v @ ''' object has no attribute 'get'' @
                          [CHR 0x27]))"

text \<open>
  The state a coroutine runs in: what has been written to \<^verbatim>\<open>sys.stderr\<close> so far, and
  everything else (the cloud services, the network, the clock) as an abstract \<open>world\<close>.
\<close>

record 'w state =
  stderr :: string
  world :: 'w

definition newline :: char where
  "newline = CHR 0x0A"

text \<open>\<^verbatim>\<open>print(msg, file=sys.stderr)\<close> appends the text and a line terminator.\<close>

definition print_stderr :: "string \<Rightarrow> 'w state \<Rightarrow> 'w state" where
  "print_stderr msg s = s\<lparr>stderr := stderr s @ msg @ [newline]\<rparr>"

text \<open>
  An object is data, a function declared with \<^verbatim>\<open>async def\<close>, or a coroutine object.
  A coroutine object is a suspended computation: run in a state it ends with a value
  or an exception and the state it leaves. \<open>'a\<close> is the type of the argument pack
  \<^verbatim>\<open>(*args, **kwargs)\<close>.
\<close>

datatype ('a, 'w) pyobj =
    Data pyval
  | AsyncFunction "'a \<Rightarrow> 'w state \<Rightarrow> (exc + ('a, 'w) pyobj) \<times> 'w state"
  | Coroutine "'w state \<Rightarrow> (exc + ('a, 'w) pyobj) \<times> 'w state"

type_synonym ('a, 'w) outcome = "(exc + ('a, 'w) pyobj) \<times> 'w state"

text \<open>
  \<^verbatim>\<open>obj(*args, **kwargs)\<close>. Calling a coroutine function runs nothing of its body and
  returns a coroutine object; a coroutine object and plain data are not callable.
\<close>

fun py_call :: "('a, 'w) pyobj \<Rightarrow> 'a \<Rightarrow> exc + ('a, 'w) pyobj" where
  "py_call (AsyncFunction body) args = Inr (Coroutine (body args))"
| "py_call (Coroutine c) args = Inl (TypeError '''coroutine' object is not callable'')"
| "py_call (Data v) args =
     Inl (TypeError (CHR 0x27 # type_name v @ ''' object is not callable''))"

text \<open>\<^verbatim>\<open>await obj\<close>. Only the coroutine object is awaitable; awaiting it runs it.\<close>

fun py_await :: "('a, 'w) pyobj \<Rightarrow> 'w state \<Rightarrow> ('a, 'w) outcome" where
  "py_await (Coroutine c) s = c s"
| "py_await (AsyncFunction body) s =
     (Inl (TypeError ''object function can't be used in 'await' expression''), s)"
| "py_await (Data v) s =
     (Inl (TypeError (''object '' @ type_name v @ '' can't be used in 'await' expression'')), s)"

text \<open>The expression \<^verbatim>\<open>await func(*args, **kwargs)\<close>: the call, then the await.\<close>

definition await_call :: "('a, 'w) pyobj \<Rightarrow> 'a \<Rightarrow> 'w state \<Rightarrow> ('a, 'w) outcome" where
  "await_call func args s =
     (case py_call func args of
        Inl e \<Rightarrow> (Inl e, s)
      | Inr c \<Rightarrow> py_await c s)"


section \<open>The module's globals and the decorator\<close>

text \<open>\<^verbatim>\<open>os.getenv(key, default)\<close> over the process environment.\<close>

definition getenv :: "(string \<rightharpoonup> string) \<Rightarrow> string \<Rightarrow> string \<Rightarrow> string" where
  "getenv environ k d = (case environ k of None \<Rightarrow> d | Some v \<Rightarrow> v)"

definition AWS_PROFILE :: "(string \<rightharpoonup> string) \<Rightarrow> string" where
  "AWS_PROFILE environ = getenv environ ''AWS_PROFILE'' ''my-dev''"

definition cross_mark :: string where
  "cross_mark = [CHR 0xE2, CHR 0x9D, CHR 0x8C]"

text \<open>
  \<open>error_code\<close> is the expression \<^verbatim>\<open>e.response['Error']['Code']\<close>: two subscripts,
  either of which can raise.

  \<open>except_clauses\<close> are the two \<^verbatim>\<open>except\<close> clauses of \<^verbatim>\<open>wrapper\<close>, in the order of the
  source, applied to the exception that left the \<^verbatim>\<open>try\<close> body. The subscripts are
  evaluated inside the handler, so what they raise leaves the wrapper (the exception
  being handled stays behind as its \<^verbatim>\<open>__context__\<close>, which the model does not keep). An
  exception of any other class matches no clause.
\<close>

definition error_code :: "pyval \<Rightarrow> exc + pyval" where
  "error_code response =
     (case getitem response ''Error'' of
        Inl raised \<Rightarrow> Inl raised
      | Inr error \<Rightarrow> getitem error ''Code'')"

fun except_clauses :: "(string \<rightharpoonup> string) \<Rightarrow> exc \<Rightarrow> 'w state \<Rightarrow> ('a, 'w) outcome" where
  "except_clauses environ (TokenRetrievalError provider m) s =
     (let error_msg = cross_mark @ '' AWS SSO session expired!'' @ [newline] @
                      ''Please run: aws sso login --profile '' @ AWS_PROFILE environ
      in (Inl (AWSCredentialError error_msg), print_stderr error_msg s))"
| "except_clauses environ (ClientError response operation_name) s =
     (case error_code response of
        Inl raised \<Rightarrow> (Inl raised, s)
      | Inr code \<Rightarrow>
          if code = PyStr ''ExpiredToken'' then
            (let error_msg = cross_mark @ '' Temporary credentials expired!'' @ [newline] @
                             ''Please run: aws sso login --profile '' @ AWS_PROFILE environ
             in (Inl (AWSCredentialError error_msg), print_stderr error_msg s))
          else (Inl (ClientError response operation_name), s))"
| "except_clauses environ e s = (Inl e, s)"

text \<open>The nested coroutine function \<^verbatim>\<open>wrapper\<close>, closed over \<^verbatim>\<open>func\<close>.\<close>

definition wrapper ::
  "(string \<rightharpoonup> string) \<Rightarrow> ('a, 'w) pyobj \<Rightarrow> 'a \<Rightarrow> 'w state \<Rightarrow> ('a, 'w) outcome" where
  "wrapper environ func args s =
     (case await_call func args s of
        (Inr result, s') \<Rightarrow> (Inr result, s')
      | (Inl e, s') \<Rightarrow> except_clauses environ e s')"

text \<open>
  \<^verbatim>\<open>handle_aws_errors\<close> is itself declared with \<^verbatim>\<open>async def\<close>: calling it with
  \<^verbatim>\<open>func\<close> runs nothing and returns a coroutine object; that coroutine, once awaited,
  defines \<^verbatim>\<open>wrapper\<close> and returns it.
\<close>

definition handle_aws_errors :: "(string \<rightharpoonup> string) \<Rightarrow> ('a, 'w) pyobj \<Rightarrow> ('a, 'w) pyobj" where
  "handle_aws_errors environ func =
     Coroutine (\<lambda>s. (Inr (AsyncFunction (wrapper environ func)), s))"


section \<open>Counting invocations\<close>

text \<open>
  To count how often a wrapped operation is run, the world is paired with a counter and
  the operation is made to advance it at the end of every run.
\<close>

definition invocations :: "('w \<times> nat) state \<Rightarrow> nat" where
  "invocations s = snd (world s)"

definition tick :: "('w \<times> nat) state \<Rightarrow> ('w \<times> nat) state" where
  "tick s = s\<lparr>world := (fst (world s), Suc (snd (world s)))\<rparr>"

definition counted ::
  "('a \<Rightarrow> ('w \<times> nat) state \<Rightarrow> ('a, 'w \<times> nat) outcome) \<Rightarrow>
   'a \<Rightarrow> ('w \<times> nat) state \<Rightarrow> ('a, 'w \<times> nat) outcome" where
  "counted body args s = (case body args s of (r, s') \<Rightarrow> (r, tick s'))"


section \<open>The decorated coroutine functions\<close>

text \<open>
  The SDK (aioboto3 and botocore) is not part of the module; its operations are
  parameters. \<open>client_enter profile service\<close> stands for
  \<^verbatim>\<open>aioboto3.Session(profile_name=profile)\<close> followed by entering the context manager of
  \<^verbatim>\<open>session.client(service)\<close> or \<^verbatim>\<open>session.resource(service)\<close>; \<open>client_exit\<close> is that
  context manager's \<^verbatim>\<open>__aexit__\<close>, which receives the exception that left the block, if
  any, and says whether to suppress it. \<open>time_ms\<close> is the value of
  \<^verbatim>\<open>int(time.time() * 1000)\<close>.
\<close>

record 'w sdk =
  client_enter :: "string \<Rightarrow> string \<Rightarrow> 'w state \<Rightarrow> (exc + unit) \<times> 'w state"
  client_exit :: "string \<Rightarrow> exc option \<Rightarrow> 'w state \<Rightarrow> (exc + bool) \<times> 'w state"
  sts_get_caller_identity :: "'w state \<Rightarrow> (exc + pyval) \<times> 'w state"
  dynamodb_Table :: "string \<Rightarrow> 'w state \<Rightarrow> (exc + unit) \<times> 'w state"
  table_get_item :: "string \<Rightarrow> pyval \<Rightarrow> 'w state \<Rightarrow> (exc + pyval) \<times> 'w state"
  logs_create_log_group :: "string \<Rightarrow> 'w state \<Rightarrow> (exc + pyval) \<times> 'w state"
  logs_create_log_stream :: "string \<Rightarrow> string \<Rightarrow> 'w state \<Rightarrow> (exc + pyval) \<times> 'w state"
  logs_put_log_events :: "string \<Rightarrow> string \<Rightarrow> pyval \<Rightarrow> 'w state \<Rightarrow> (exc + pyval) \<times> 'w state"
  time_ms :: "'w state \<Rightarrow> int"

text \<open>Sequencing of steps that may raise, and a pure expression as a step.\<close>

definition bind_step ::
  "('s \<Rightarrow> (exc + 'x) \<times> 's) \<Rightarrow> ('x \<Rightarrow> 's \<Rightarrow> (exc + 'y) \<times> 's) \<Rightarrow> 's \<Rightarrow> (exc + 'y) \<times> 's" where
  "bind_step m f s = (case m s of (Inl e, s') \<Rightarrow> (Inl e, s') | (Inr x, s') \<Rightarrow> f x s')"

definition eval_step :: "exc + 'x \<Rightarrow> 's \<Rightarrow> (exc + 'x) \<times> 's" where
  "eval_step r s = (r, s)"

text \<open>
  \<^verbatim>\<open>async with cm as c: block\<close>, for a block that is the rest of the function (as in every
  function of the module): the value of the block is what the function returns once the
  exit has run; an exception suppressed by the exit lets the function end, returning
  \<^verbatim>\<open>None\<close>.
\<close>

definition async_with ::
  "('s \<Rightarrow> (exc + unit) \<times> 's) \<Rightarrow> (exc option \<Rightarrow> 's \<Rightarrow> (exc + bool) \<times> 's) \<Rightarrow>
   ('s \<Rightarrow> (exc + pyval) \<times> 's) \<Rightarrow> 's \<Rightarrow> (exc + pyval) \<times> 's" where
  "async_with enter exit block s =
     (case enter s of
        (Inl e, s1) \<Rightarrow> (Inl e, s1)
      | (Inr _, s1) \<Rightarrow>
          (case block s1 of
             (Inr v, s2) \<Rightarrow>
               (case exit None s2 of
                  (Inl e', s3) \<Rightarrow> (Inl e', s3)
                | (Inr _, s3) \<Rightarrow> (Inr v, s3))
           | (Inl e, s2) \<Rightarrow>
               (case exit (Some e) s2 of
                  (Inl e', s3) \<Rightarrow> (Inl e', s3)
                | (Inr suppress, s3) \<Rightarrow> if suppress then (Inr PyNone, s3) else (Inl e, s3))))"

text \<open>A declaration \<^verbatim>\<open>async def name(params): body\<close> binds the name to a coroutine function.\<close>

definition async_def :: "('a \<Rightarrow> 'w state \<Rightarrow> (exc + pyval) \<times> 'w state) \<Rightarrow> ('a, 'w) pyobj" where
  "async_def body =
     AsyncFunction (\<lambda>args s. case body args s of
                               (Inl e, s') \<Rightarrow> (Inl e, s')
                             | (Inr v, s') \<Rightarrow> (Inr (Data v), s'))"

definition get_caller_identity_body ::
  "(string \<rightharpoonup> string) \<Rightarrow> 'w sdk \<Rightarrow> unit \<Rightarrow> 'w state \<Rightarrow> (exc + pyval) \<times> 'w state" where
  "get_caller_identity_body environ aws args =
     async_with (client_enter aws (AWS_PROFILE environ) ''sts'') (client_exit aws ''sts'')
       (bind_step (sts_get_caller_identity aws) (\<lambda>identity.
        bind_step (eval_step (getitem identity ''Account'')) (\<lambda>account.
        bind_step (eval_step (getitem identity ''Arn'')) (\<lambda>arn.
        bind_step (eval_step (getitem identity ''UserId'')) (\<lambda>user_id.
        eval_step (Inr (PyDict [(''account_id'', account), (''user_arn'', arn),
                                (''user_id'', user_id),
                                (''profile'', PyStr (AWS_PROFILE environ))])))))))"

definition get_dynamodb_item_body ::
  "(string \<rightharpoonup> string) \<Rightarrow> 'w sdk \<Rightarrow> string \<times> pyval \<Rightarrow> 'w state \<Rightarrow> (exc + pyval) \<times> 'w state" where
  "get_dynamodb_item_body environ aws args =
     (case args of (table_name, key) \<Rightarrow>
        async_with (client_enter aws (AWS_PROFILE environ) ''dynamodb'')
                   (client_exit aws ''dynamodb'')
          (bind_step (dynamodb_Table aws table_name) (\<lambda>table.
           bind_step (table_get_item aws table_name key) (\<lambda>response.
           eval_step (dict_get response ''Item'')))))"

text \<open>
  The \<^verbatim>\<open>try\<close> statement that \<^verbatim>\<open>put_cloudwatch_log_event\<close> writes twice, around the creation
  of the log group and of the log stream: a \<^verbatim>\<open>ClientError\<close> is re-raised unless its code is
  \<^verbatim>\<open>'ResourceAlreadyExistsException'\<close>.
\<close>

definition try_create ::
  "('w state \<Rightarrow> (exc + pyval) \<times> 'w state) \<Rightarrow> 'w state \<Rightarrow> (exc + unit) \<times> 'w state" where
  "try_create create s =
     (case create s of
        (Inr _, s') \<Rightarrow> (Inr (), s')
      | (Inl (ClientError response operation_name), s') \<Rightarrow>
          (case error_code response of
             Inl raised \<Rightarrow> (Inl raised, s')
           | Inr code \<Rightarrow>
               if code \<noteq> PyStr ''ResourceAlreadyExistsException''
               then (Inl (ClientError response operation_name), s')
               else (Inr (), s'))
      | (Inl e, s') \<Rightarrow> (Inl e, s'))"

definition put_cloudwatch_log_event_body ::
  "(string \<rightharpoonup> string) \<Rightarrow> 'w sdk \<Rightarrow> string \<times> string \<times> string \<Rightarrow> 'w state \<Rightarrow>
   (exc + pyval) \<times> 'w state" where
  "put_cloudwatch_log_event_body environ aws args =
     (case args of (log_group, log_stream, message) \<Rightarrow>
        async_with (client_enter aws (AWS_PROFILE environ) ''logs'') (client_exit aws ''logs'')
          (bind_step (try_create (logs_create_log_group aws log_group)) (\<lambda>_.
           bind_step (try_create (logs_create_log_stream aws log_group log_stream)) (\<lambda>_.
           (\<lambda>s. let timestamp = time_ms aws s in
             bind_step
               (logs_put_log_events aws log_group log_stream
                  (PyList [PyDict [(''timestamp'', PyInt timestamp),
                                   (''message'', PyStr message)]]))
               (\<lambda>_. eval_step (Inr PyNone)) s)))))"

text \<open>
  The module-level names. \<^verbatim>\<open>@handle_aws_errors\<close> above a declaration binds the name to
  \<^verbatim>\<open>handle_aws_errors(f)\<close>, where \<^verbatim>\<open>f\<close> is the declared coroutine function.
\<close>

definition get_caller_identity :: "(string \<rightharpoonup> string) \<Rightarrow> 'w sdk \<Rightarrow> (unit, 'w) pyobj" where
  "get_caller_identity environ aws =
     handle_aws_errors environ (async_def (get_caller_identity_body environ aws))"

definition get_dynamodb_item ::
  "(string \<rightharpoonup> string) \<Rightarrow> 'w sdk \<Rightarrow> (string \<times> pyval, 'w) pyobj" where
  "get_dynamodb_item environ aws =
     handle_aws_errors environ (async_def (get_dynamodb_item_body environ aws))"

definition put_cloudwatch_log_event ::
  "(string \<rightharpoonup> string) \<Rightarrow> 'w sdk \<Rightarrow> (string \<times> string \<times> string, 'w) pyobj" where
  "put_cloudwatch_log_event environ aws =
     handle_aws_errors environ (async_def (put_cloudwatch_log_event_body environ aws))"


section \<open>Sample operations\<close>

text \<open>
  Two coroutine functions that touch nothing: one returns a given value, one raises a
  given exception. They instantiate the theorems below at concrete inputs.
\<close>

definition returning :: "pyval \<Rightarrow> ('a, 'w) pyobj" where
  "returning v = AsyncFunction (\<lambda>args s. (Inr (Data v), s))"

definition failing_with :: "exc \<Rightarrow> ('a, 'w) pyobj" where
  "failing_with e = AsyncFunction (\<lambda>args s. (Inl e, s))"

definition access_denied :: exc where
  "access_denied =
     ClientError (PyDict [(''Error'', PyDict [(''Code'', PyStr ''AccessDenied''),
                                              (''Message'', PyStr ''Access Denied'')])])
                 ''ListBuckets''"

definition expired_token :: exc where
  "expired_token =
     ClientError (PyDict [(''Error'', PyDict [(''Code'', PyStr ''ExpiredToken''),
                                              (''Message'', PyStr ''The security token is expired'')])])
                 ''GetCallerIdentity''"


section \<open>The decorator\<close>

lemma await_call_wrapper:
  "await_call (AsyncFunction (wrapper environ func)) args s = wrapper environ func args s"
  by (simp add: await_call_def)

lemma await_call_returning: "await_call (returning v) args s = (Inr (Data v), s)"
  by (simp add: await_call_def returning_def)

lemma await_call_failing_with: "await_call (failing_with e) args s = (Inl e, s)"
  by (simp add: await_call_def failing_with_def)

text \<open>
  Awaiting what \<^verbatim>\<open>handle_aws_errors(func)\<close> returns gives the wrapper, in an unchanged
  state. This is the only way the module's code yields a wrapper; the theorems on the
  wrapper below are about this coroutine function.
\<close>

lemma await_decorator_gives_wrapper:
  "py_await (handle_aws_errors environ func) s = (Inr (AsyncFunction (wrapper environ func)), s)"
  by (simp add: handle_aws_errors_def)

text \<open>
  C1. The claim: the decorated name is a callable that can be invoked with the arguments
  of the decorated function and awaited. In the code the decorated name is bound to the
  coroutine object that the \<^verbatim>\<open>async def\<close> decorator returns, so for every \<^verbatim>\<open>func\<close> and
  every argument pack the expression \<^verbatim>\<open>await name(*args)\<close> raises \<^verbatim>\<open>TypeError\<close> at the
  call, with the state untouched: the wrapped function never runs.
\<close>

theorem decorated_name_is_not_callable:
  "await_call (handle_aws_errors environ func) args s =
     (Inl (TypeError '''coroutine' object is not callable''), s)"
  by (simp add: await_call_def handle_aws_errors_def)

text \<open>The first statement of \<^verbatim>\<open>main\<close>, \<^verbatim>\<open>await get_caller_identity()\<close>, is an instance.\<close>

lemma get_caller_identity_is_not_callable:
  "await_call (get_caller_identity environ aws) () s =
     (Inl (TypeError '''coroutine' object is not callable''), s)"
  by (simp add: get_caller_identity_def await_call_def handle_aws_errors_def)


section \<open>The wrapper\<close>

text \<open>
  C2. When the wrapped operation completes with a result, the wrapper returns that
  result and leaves the state exactly as the operation left it: nothing is written to
  the error stream and nothing else is changed.
\<close>

theorem wrapper_passes_result_through:
  assumes "await_call func args s = (Inr result, s')"
  shows "await_call (AsyncFunction (wrapper environ func)) args s = (Inr result, s')"
  using assms by (simp add: await_call_wrapper wrapper_def)

theorem wrapper_passes_result_through_witness:
  "await_call (returning (PyList [PyStr ''b1'', PyStr ''b2'', PyStr ''b3'']) :: (unit, unit) pyobj) ()
       \<lparr>stderr = ''log'', world = ()\<rparr>
     = (Inr (Data (PyList [PyStr ''b1'', PyStr ''b2'', PyStr ''b3''])),
        \<lparr>stderr = ''log'', world = ()\<rparr>)
   \<and> await_call (AsyncFunction (wrapper Map.empty
         (returning (PyList [PyStr ''b1'', PyStr ''b2'', PyStr ''b3'']) :: (unit, unit) pyobj))) ()
       \<lparr>stderr = ''log'', world = ()\<rparr>
     = (Inr (Data (PyList [PyStr ''b1'', PyStr ''b2'', PyStr ''b3''])),
        \<lparr>stderr = ''log'', world = ()\<rparr>)"
proof -
  have run: "await_call (returning (PyList [PyStr ''b1'', PyStr ''b2'', PyStr ''b3'']) :: (unit, unit) pyobj) ()
       \<lparr>stderr = ''log'', world = ()\<rparr>
     = (Inr (Data (PyList [PyStr ''b1'', PyStr ''b2'', PyStr ''b3''])),
        \<lparr>stderr = ''log'', world = ()\<rparr>)"
    by (rule await_call_returning)
  from run wrapper_passes_result_through [OF run, of Map.empty] show ?thesis
    by simp
qed

text \<open>
  C3. When the wrapped operation fails with \<^verbatim>\<open>TokenRetrievalError\<close>, the wrapper raises
  \<^verbatim>\<open>AWSCredentialError\<close> carrying the remediation message, and the error stream has
  received that message: the line announcing the expired session, then the line with
  the command \<^verbatim>\<open>aws sso login --profile\<close> followed by the profile name, each terminated
  by a newline. Nothing else of the state the operation left is changed.
\<close>

theorem token_retrieval_error_becomes_credential_error:
  assumes "await_call func args s = (Inl (TokenRetrievalError provider m), s')"
  shows "await_call (AsyncFunction (wrapper environ func)) args s =
     (Inl (AWSCredentialError
             (cross_mark @ '' AWS SSO session expired!'' @ [newline] @
              ''Please run: aws sso login --profile '' @ AWS_PROFILE environ)),
      s'\<lparr>stderr := stderr s' @
             cross_mark @ '' AWS SSO session expired!'' @ [newline] @
             ''Please run: aws sso login --profile '' @ AWS_PROFILE environ @ [newline]\<rparr>)"
  using assms by (simp add: await_call_wrapper wrapper_def print_stderr_def)

theorem token_retrieval_error_becomes_credential_error_witness:
  "await_call (failing_with (TokenRetrievalError ''sso'' ''Token has expired'') :: (unit, unit) pyobj) ()
       \<lparr>stderr = [], world = ()\<rparr>
     = (Inl (TokenRetrievalError ''sso'' ''Token has expired''), \<lparr>stderr = [], world = ()\<rparr>)
   \<and> await_call (AsyncFunction (wrapper [''AWS_PROFILE'' \<mapsto> ''prod'']
         (failing_with (TokenRetrievalError ''sso'' ''Token has expired'') :: (unit, unit) pyobj))) ()
       \<lparr>stderr = [], world = ()\<rparr>
     = (Inl (AWSCredentialError
               (cross_mark @ '' AWS SSO session expired!'' @ [newline] @
                ''Please run: aws sso login --profile prod'')),
        \<lparr>stderr = cross_mark @ '' AWS SSO session expired!'' @ [newline] @
                  ''Please run: aws sso login --profile prod'' @ [newline],
         world = ()\<rparr>)"
proof -
  have run: "await_call (failing_with (TokenRetrievalError ''sso'' ''Token has expired'') :: (unit, unit) pyobj) ()
       \<lparr>stderr = [], world = ()\<rparr>
     = (Inl (TokenRetrievalError ''sso'' ''Token has expired''), \<lparr>stderr = [], world = ()\<rparr>)"
    by (rule await_call_failing_with)
  from run
    token_retrieval_error_becomes_credential_error
      [OF run, of "[''AWS_PROFILE'' \<mapsto> ''prod'']"]
  show ?thesis
    by (simp add: AWS_PROFILE_def getenv_def)
qed

text \<open>
  Each of the two messages is two lines when the profile name holds no line break: the
  printed text has exactly two line terminators.
\<close>

lemma remediation_messages_two_lines:
  assumes "newline \<notin> set profile"
    and "headline = '' AWS SSO session expired!'' \<or> headline = '' Temporary credentials expired!''"
  shows "length (filter (\<lambda>c. c = newline)
           (cross_mark @ headline @ [newline] @
            ''Please run: aws sso login --profile '' @ profile @ [newline])) = 2"
proof -
  have "filter (\<lambda>c. c = newline) profile = []"
    using assms(1) by (auto simp: filter_empty_conv)
  with assms(2) show ?thesis
    by (auto simp: newline_def cross_mark_def)
qed

text \<open>
  C4. When the wrapped operation fails with a \<^verbatim>\<open>ClientError\<close> whose
  \<^verbatim>\<open>response['Error']['Code']\<close> is \<^verbatim>\<open>'ExpiredToken'\<close>, the wrapper raises
  \<^verbatim>\<open>AWSCredentialError\<close> in place of the original failure, and the error stream has
  received the remediation message.
\<close>

theorem expired_token_becomes_credential_error:
  assumes "await_call func args s = (Inl (ClientError response operation_name), s')"
    and "error_code response = Inr (PyStr ''ExpiredToken'')"
  shows "await_call (AsyncFunction (wrapper environ func)) args s =
     (Inl (AWSCredentialError
             (cross_mark @ '' Temporary credentials expired!'' @ [newline] @
              ''Please run: aws sso login --profile '' @ AWS_PROFILE environ)),
      s'\<lparr>stderr := stderr s' @
             cross_mark @ '' Temporary credentials expired!'' @ [newline] @
             ''Please run: aws sso login --profile '' @ AWS_PROFILE environ @ [newline]\<rparr>)"
  using assms by (simp add: await_call_wrapper wrapper_def print_stderr_def)

theorem expired_token_becomes_credential_error_witness:
  "await_call (failing_with expired_token :: (unit, unit) pyobj) () \<lparr>stderr = [], world = ()\<rparr>
     = (Inl expired_token, \<lparr>stderr = [], world = ()\<rparr>)
   \<and> await_call (AsyncFunction (wrapper Map.empty
         (failing_with expired_token :: (unit, unit) pyobj))) () \<lparr>stderr = [], world = ()\<rparr>
     = (Inl (AWSCredentialError
               (cross_mark @ '' Temporary credentials expired!'' @ [newline] @
                ''Please run: aws sso login --profile my-dev'')),
        \<lparr>stderr = cross_mark @ '' Temporary credentials expired!'' @ [newline] @
                  ''Please run: aws sso login --profile my-dev'' @ [newline],
         world = ()\<rparr>)"
proof -
  have run: "await_call (failing_with expired_token :: (unit, unit) pyobj) () \<lparr>stderr = [], world = ()\<rparr>
     = (Inl (ClientError
               (PyDict [(''Error'', PyDict [(''Code'', PyStr ''ExpiredToken''),
                                            (''Message'', PyStr ''The security token is expired'')])])
               ''GetCallerIdentity''),
        \<lparr>stderr = [], world = ()\<rparr>)"
    by (simp add: await_call_failing_with expired_token_def)
  have code: "error_code (PyDict [(''Error'', PyDict [(''Code'', PyStr ''ExpiredToken''),
                                            (''Message'', PyStr ''The security token is expired'')])])
     = Inr (PyStr ''ExpiredToken'')"
    by (simp add: error_code_def)
  from run expired_token_becomes_credential_error [OF run code, of Map.empty]
  show ?thesis
    by (simp add: AWS_PROFILE_def getenv_def expired_token_def)
qed

text \<open>
  The failures that the wrapper does hand on as they are: a \<^verbatim>\<open>ClientError\<close> whose code is
  present and is not \<^verbatim>\<open>'ExpiredToken'\<close>, and an exception that is neither a
  \<^verbatim>\<open>TokenRetrievalError\<close> nor a \<^verbatim>\<open>ClientError\<close>. For these the wrapper ends with that same
  exception (the value with all it carries) and in the state the operation left: no
  \<^verbatim>\<open>AWSCredentialError\<close> is made and nothing is written to the error stream. A
  \<^verbatim>\<open>ClientError\<close> without a code is not among them; see below.
\<close>

lemma except_clauses_other_class:
  assumes "\<forall>provider m. e \<noteq> TokenRetrievalError provider m"
    and "\<forall>response operation_name. e \<noteq> ClientError response operation_name"
  shows "except_clauses environ e s = (Inl e, s)"
  using assms by (cases e) simp_all

lemma other_failures_propagate_unchanged:
  assumes "await_call func args s = (Inl e, s')"
    and "(\<exists>response operation_name code.
            e = ClientError response operation_name \<and> error_code response = Inr code \<and>
            code \<noteq> PyStr ''ExpiredToken'')
         \<or> ((\<forall>provider m. e \<noteq> TokenRetrievalError provider m) \<and>
            (\<forall>response operation_name. e \<noteq> ClientError response operation_name))"
  shows "await_call (AsyncFunction (wrapper environ func)) args s = (Inl e, s')"
  using assms(2)
proof
  assume "\<exists>response operation_name code.
            e = ClientError response operation_name \<and> error_code response = Inr code \<and>
            code \<noteq> PyStr ''ExpiredToken''"
  then obtain response operation_name code where
    "e = ClientError response operation_name" "error_code response = Inr code"
    "code \<noteq> PyStr ''ExpiredToken''"
    by blast
  with assms(1) show ?thesis
    by (simp add: await_call_wrapper wrapper_def)
next
  assume "(\<forall>provider m. e \<noteq> TokenRetrievalError provider m) \<and>
          (\<forall>response operation_name. e \<noteq> ClientError response operation_name)"
  with assms(1) show ?thesis
    by (simp add: await_call_wrapper wrapper_def except_clauses_other_class)
qed

lemma other_failures_propagate_unchanged_at_samples:
  "await_call (AsyncFunction (wrapper Map.empty (failing_with access_denied :: (unit, unit) pyobj))) ()
       \<lparr>stderr = [], world = ()\<rparr>
     = (Inl access_denied, \<lparr>stderr = [], world = ()\<rparr>)
   \<and> await_call (AsyncFunction (wrapper Map.empty
         (failing_with (OtherError ''ValueError'' ''bad key'') :: (unit, unit) pyobj))) ()
       \<lparr>stderr = [], world = ()\<rparr>
     = (Inl (OtherError ''ValueError'' ''bad key''), \<lparr>stderr = [], world = ()\<rparr>)"
proof -
  have run1: "await_call (failing_with access_denied :: (unit, unit) pyobj) ()
       \<lparr>stderr = [], world = ()\<rparr> = (Inl access_denied, \<lparr>stderr = [], world = ()\<rparr>)"
    by (rule await_call_failing_with)
  have code1: "\<exists>response operation_name code.
            access_denied = ClientError response operation_name \<and>
            error_code response = Inr code \<and> code \<noteq> PyStr ''ExpiredToken''"
    by (simp add: access_denied_def error_code_def)
  have run2: "await_call (failing_with (OtherError ''ValueError'' ''bad key'') :: (unit, unit) pyobj) ()
       \<lparr>stderr = [], world = ()\<rparr>
     = (Inl (OtherError ''ValueError'' ''bad key''), \<lparr>stderr = [], world = ()\<rparr>)"
    by (rule await_call_failing_with)
  have class2: "(\<forall>provider m. OtherError ''ValueError'' ''bad key'' \<noteq> TokenRetrievalError provider m) \<and>
      (\<forall>response operation_name.
          OtherError ''ValueError'' ''bad key'' \<noteq> ClientError response operation_name)"
    by simp
  from other_failures_propagate_unchanged [OF run1 disjI1 [OF code1], of Map.empty]
       other_failures_propagate_unchanged [OF run2 disjI2 [OF class2], of Map.empty]
  show ?thesis
    by simp
qed

text \<open>
  A failure of the wrapped operation is never turned into a result, whatever the
  exception and whatever its shape.
\<close>

lemma except_clauses_fail: "\<exists>e'. fst (except_clauses environ e s) = Inl e'"
  by (cases e) (simp_all add: Let_def split: sum.splits)

lemma failure_never_becomes_result:
  assumes "await_call func args s = (Inl e, s')"
  shows "\<exists>e'. fst (await_call (AsyncFunction (wrapper environ func)) args s) = Inl e'"
  using assms by (simp add: await_call_wrapper wrapper_def except_clauses_fail)

text \<open>
  When the subscripts \<^verbatim>\<open>e.response['Error']['Code']\<close> raise, that exception leaves the
  wrapper in place of the \<^verbatim>\<open>ClientError\<close>; for a response without the key \<^verbatim>\<open>'Error'\<close>, or
  whose \<^verbatim>\<open>'Error'\<close> has no \<^verbatim>\<open>'Code'\<close>, it is the \<^verbatim>\<open>KeyError\<close> of the missing key.
\<close>

lemma inspection_failure_replaces_client_error:
  assumes "await_call func args s = (Inl (ClientError response operation_name), s')"
    and "error_code response = Inl raised"
  shows "await_call (AsyncFunction (wrapper environ func)) args s = (Inl raised, s')"
  using assms by (simp add: await_call_wrapper wrapper_def)

lemma error_code_without_Error:
  "map_of kvs ''Error'' = None \<Longrightarrow> error_code (PyDict kvs) = Inl (KeyError ''Error'')"
  by (simp add: error_code_def)

lemma error_code_without_Code:
  "map_of kvs ''Error'' = Some (PyDict err) \<Longrightarrow> map_of err ''Code'' = None \<Longrightarrow>
     error_code (PyDict kvs) = Inl (KeyError ''Code'')"
  by (simp add: error_code_def)

text \<open>
  C5. The claim: every failure that is neither of the two recognised credential
  conditions (a \<^verbatim>\<open>ClientError\<close> with another code, or any other failure) leaves the wrapper
  as the original exception, with nothing written. In the code this holds for a
  \<^verbatim>\<open>ClientError\<close> with a code other than \<^verbatim>\<open>'ExpiredToken'\<close> and for every other exception
  class, but not for a \<^verbatim>\<open>ClientError\<close> that carries no code: it is no token retrieval
  failure and has no \<^verbatim>\<open>'ExpiredToken'\<close> code, yet the wrapper does not re-raise it. For the
  response \<^verbatim>\<open>{'ResponseMetadata': {}}\<close> the operation ends with the \<^verbatim>\<open>ClientError\<close>, the
  inspection of its code raises \<^verbatim>\<open>KeyError('Error')\<close>, and that \<^verbatim>\<open>KeyError\<close> is what leaves
  the wrapper.
\<close>

theorem client_error_without_code_is_not_propagated:
  "await_call (failing_with (ClientError (PyDict [(''ResponseMetadata'', PyDict [])]) ''GetItem'')
                 :: (unit, unit) pyobj) () \<lparr>stderr = ''log'', world = ()\<rparr>
     = (Inl (ClientError (PyDict [(''ResponseMetadata'', PyDict [])]) ''GetItem''),
        \<lparr>stderr = ''log'', world = ()\<rparr>)
   \<and> error_code (PyDict [(''ResponseMetadata'', PyDict [])]) = Inl (KeyError ''Error'')
   \<and> await_call (AsyncFunction (wrapper Map.empty
         (failing_with (ClientError (PyDict [(''ResponseMetadata'', PyDict [])]) ''GetItem'')
                 :: (unit, unit) pyobj))) () \<lparr>stderr = ''log'', world = ()\<rparr>
     = (Inl (KeyError ''Error''), \<lparr>stderr = ''log'', world = ()\<rparr>)"
  by (simp add: await_call_def wrapper_def failing_with_def error_code_def)

text \<open>
  C6. The claim: for a \<^verbatim>\<open>ClientError\<close> in which no error code is present, the wrapper does
  not crash while inspecting the code; it propagates the original failure or signals an
  inspection failure. In the code the inspection is the unguarded pair of subscripts:
  for the response \<^verbatim>\<open>{}\<close> the wrapper ends with \<^verbatim>\<open>KeyError('Error')\<close>, for
  \<^verbatim>\<open>{'Error': {'Message': 'denied'}}\<close> with \<^verbatim>\<open>KeyError('Code')\<close>; the \<^verbatim>\<open>ClientError\<close> is not
  re-raised.
\<close>

theorem client_error_without_code_raises_key_error:
  "await_call (AsyncFunction (wrapper Map.empty
       (failing_with (ClientError (PyDict []) ''ListBuckets'') :: (unit, unit) pyobj))) ()
       \<lparr>stderr = [], world = ()\<rparr>
     = (Inl (KeyError ''Error''), \<lparr>stderr = [], world = ()\<rparr>)
   \<and> await_call (AsyncFunction (wrapper Map.empty
       (failing_with (ClientError (PyDict [(''Error'', PyDict [(''Message'', PyStr ''denied'')])])
                                  ''ListBuckets'') :: (unit, unit) pyobj))) ()
       \<lparr>stderr = [], world = ()\<rparr>
     = (Inl (KeyError ''Code''), \<lparr>stderr = [], world = ()\<rparr>)"
  by (simp add: await_call_def wrapper_def failing_with_def error_code_def)

text \<open>
  C7. When the wrapped operation ends with the cancellation signal, the wrapper ends
  with the same signal in the state the operation left; it raises no
  \<^verbatim>\<open>AWSCredentialError\<close> and writes nothing.
\<close>

theorem cancellation_propagates:
  assumes "await_call func args s = (Inl CancelledError, s')"
  shows "await_call (AsyncFunction (wrapper environ func)) args s = (Inl CancelledError, s')"
  using assms by (simp add: await_call_wrapper wrapper_def)

theorem cancellation_propagates_witness:
  "await_call (failing_with CancelledError :: (unit, unit) pyobj) () \<lparr>stderr = [], world = ()\<rparr>
     = (Inl CancelledError, \<lparr>stderr = [], world = ()\<rparr>)
   \<and> await_call (AsyncFunction (wrapper Map.empty (failing_with CancelledError :: (unit, unit) pyobj))) ()
       \<lparr>stderr = [], world = ()\<rparr>
     = (Inl CancelledError, \<lparr>stderr = [], world = ()\<rparr>)"
proof -
  have run: "await_call (failing_with CancelledError :: (unit, unit) pyobj) ()
       \<lparr>stderr = [], world = ()\<rparr> = (Inl CancelledError, \<lparr>stderr = [], world = ()\<rparr>)"
    by (rule await_call_failing_with)
  from run cancellation_propagates [OF run, of Map.empty] show ?thesis
    by simp
qed

section \<open>No retries\<close>

lemma invocations_print_stderr: "invocations (print_stderr msg s) = invocations s"
  by (simp add: invocations_def print_stderr_def)

lemma invocations_except_clauses:
  "invocations (snd (except_clauses environ e s)) = invocations s"
  by (cases e) (simp_all add: invocations_print_stderr Let_def split: sum.splits)

lemma invocations_tick: "invocations (tick s) = Suc (invocations s)"
  by (simp add: invocations_def tick_def)

text \<open>
  After the wrapper has run, the counter stands one above the value that a single run
  of the operation, started in the initial state, leaves.
\<close>

lemma counter_after_wrapper:
  "invocations (snd (await_call (AsyncFunction (wrapper environ (AsyncFunction (counted body)))) args s))
     = Suc (invocations (snd (body args s)))"
proof (cases "body args s")
  case (Pair r s')
  then have run: "await_call (AsyncFunction (counted body)) args s = (r, tick s')"
    by (simp add: await_call_def counted_def)
  show ?thesis
  proof (cases r)
    case (Inl e)
    with run Pair show ?thesis
      by (simp add: await_call_wrapper wrapper_def invocations_except_clauses invocations_tick)
  next
    case (Inr v)
    with run Pair show ?thesis
      by (simp add: await_call_wrapper wrapper_def invocations_tick)
  qed
qed

text \<open>
  C8. One invocation of the wrapper runs the wrapped operation exactly once, whatever
  the operation does: for an operation that leaves the counter alone and is made to
  advance it at every run, the counter after the wrapper is one above its initial value.
\<close>

theorem wrapped_operation_runs_exactly_once:
  assumes "\<forall>a t. invocations (snd (body a t)) = invocations t"
  shows "invocations (snd (await_call
           (AsyncFunction (wrapper environ (AsyncFunction (counted body)))) args s))
         = Suc (invocations s)"
  using assms by (simp add: counter_after_wrapper)

theorem wrapped_operation_runs_exactly_once_witness:
  "invocations (snd (await_call (AsyncFunction (wrapper Map.empty (AsyncFunction (counted
       (\<lambda>a t. (Inl (TokenRetrievalError ''sso'' ''Token has expired''), t)))))) ()
       \<lparr>stderr = [], world = ((), 0)\<rparr>)) = Suc 0
   \<and> invocations (snd (await_call (AsyncFunction (wrapper Map.empty (AsyncFunction (counted
       (\<lambda>a t. (Inl access_denied, t)))))) () \<lparr>stderr = [], world = ((), 0)\<rparr>)) = Suc 0
   \<and> invocations (snd (await_call (AsyncFunction (wrapper Map.empty (AsyncFunction (counted
       (\<lambda>a t. (Inr (Data PyNone), t)))))) () \<lparr>stderr = [], world = ((), 0)\<rparr>)) = Suc 0"
proof -
  have quiet1: "\<forall>a t. invocations (snd (Inl (TokenRetrievalError ''sso'' ''Token has expired'')
                  :: exc + (unit, unit \<times> nat) pyobj, t :: (unit \<times> nat) state)) = invocations t"
    by simp
  have quiet2: "\<forall>a t. invocations (snd (Inl access_denied
                  :: exc + (unit, unit \<times> nat) pyobj, t :: (unit \<times> nat) state)) = invocations t"
    by simp
  have quiet3: "\<forall>a t. invocations (snd (Inr (Data PyNone)
                  :: exc + (unit, unit \<times> nat) pyobj, t :: (unit \<times> nat) state)) = invocations t"
    by simp
  have start: "invocations \<lparr>stderr = [], world = ((), 0)\<rparr> = 0"
    by (simp add: invocations_def)
  from wrapped_operation_runs_exactly_once
         [of "\<lambda>a t. (Inl (TokenRetrievalError ''sso'' ''Token has expired''), t)"
             Map.empty "()" "\<lparr>stderr = [], world = ((), 0)\<rparr>", OF quiet1]
       wrapped_operation_runs_exactly_once
         [of "\<lambda>a t. (Inl access_denied, t)"
             Map.empty "()" "\<lparr>stderr = [], world = ((), 0)\<rparr>", OF quiet2]
       wrapped_operation_runs_exactly_once
         [of "\<lambda>a t. (Inr (Data PyNone), t)"
             Map.empty "()" "\<lparr>stderr = [], world = ((), 0)\<rparr>", OF quiet3]
       start
  show ?thesis
    by simp
qed


section \<open>The decorated functions of the catalogue\<close>

text \<open>
  What the body of \<^verbatim>\<open>get_dynamodb_item\<close> does when the table holds no item for the key,
  that is, when the response of \<^verbatim>\<open>get_item\<close> has no \<^verbatim>\<open>'Item'\<close>: it returns \<^verbatim>\<open>None\<close>, and
  so does a wrapper around it.
\<close>

lemma get_dynamodb_item_body_missing_item:
  assumes "client_enter aws (AWS_PROFILE environ) ''dynamodb'' s = (Inr (), s1)"
    and "dynamodb_Table aws table_name s1 = (Inr (), s2)"
    and "table_get_item aws table_name key s2 = (Inr (PyDict response), s3)"
    and "map_of response ''Item'' = None"
    and "client_exit aws ''dynamodb'' None s3 = (Inr suppress, s4)"
  shows "get_dynamodb_item_body environ aws (table_name, key) s = (Inr PyNone, s4)"
  using assms
  by (simp add: get_dynamodb_item_body_def async_with_def bind_step_def eval_step_def)

lemma get_dynamodb_item_wrapped_missing_item:
  assumes "get_dynamodb_item_body environ aws (table_name, key) s = (Inr PyNone, s')"
  shows "await_call (AsyncFunction (wrapper environ (async_def (get_dynamodb_item_body environ aws))))
           (table_name, key) s = (Inr (Data PyNone), s')"
  using assms by (simp add: await_call_def wrapper_def async_def_def)

text \<open>
  C9. The claim: for a key without an item, \<^verbatim>\<open>get_dynamodb_item\<close> completes and returns
  \<^verbatim>\<open>None\<close>. In the code the name \<^verbatim>\<open>get_dynamodb_item\<close> is bound to the coroutine object
  returned by the decorator, so \<^verbatim>\<open>await get_dynamodb_item(table_name, key)\<close> raises
  \<^verbatim>\<open>TypeError\<close> for every table and key, and the table is never read.
\<close>

theorem get_dynamodb_item_is_not_callable:
  "await_call (get_dynamodb_item environ aws) (table_name, key) s =
     (Inl (TypeError '''coroutine' object is not callable''), s)"
  by (simp add: get_dynamodb_item_def await_call_def handle_aws_errors_def)

text \<open>
  What the \<^verbatim>\<open>try\<close> statements of \<^verbatim>\<open>put_cloudwatch_log_event\<close> do with a \<^verbatim>\<open>ClientError\<close>:
  the code \<^verbatim>\<open>'ResourceAlreadyExistsException'\<close> is swallowed, any other code is re-raised.
  With both creations answered by that code, the body goes on to \<^verbatim>\<open>put_log_events\<close>.
\<close>

lemma try_create_already_exists:
  assumes "create s = (Inl (ClientError response operation_name), s')"
    and "error_code response = Inr (PyStr ''ResourceAlreadyExistsException'')"
  shows "try_create create s = (Inr (), s')"
  using assms by (simp add: try_create_def)

lemma try_create_other_code:
  assumes "create s = (Inl (ClientError response operation_name), s')"
    and "error_code response = Inr code"
    and "code \<noteq> PyStr ''ResourceAlreadyExistsException''"
  shows "try_create create s = (Inl (ClientError response operation_name), s')"
  using assms by (simp add: try_create_def)

lemma put_cloudwatch_log_event_body_already_exists:
  assumes "client_enter aws (AWS_PROFILE environ) ''logs'' s = (Inr (), s1)"
    and "logs_create_log_group aws log_group s1 = (Inl (ClientError r1 op1), s2)"
    and "error_code r1 = Inr (PyStr ''ResourceAlreadyExistsException'')"
    and "logs_create_log_stream aws log_group log_stream s2 = (Inl (ClientError r2 op2), s3)"
    and "error_code r2 = Inr (PyStr ''ResourceAlreadyExistsException'')"
    and "logs_put_log_events aws log_group log_stream
           (PyList [PyDict [(''timestamp'', PyInt (time_ms aws s3)),
                            (''message'', PyStr message)]]) s3 = (Inr v, s4)"
    and "client_exit aws ''logs'' None s4 = (Inr suppress, s5)"
  shows "put_cloudwatch_log_event_body environ aws (log_group, log_stream, message) s =
           (Inr PyNone, s5)"
  using assms
  by (simp add: put_cloudwatch_log_event_body_def async_with_def bind_step_def eval_step_def
        try_create_already_exists)

lemma put_cloudwatch_log_event_body_other_code:
  assumes "client_enter aws (AWS_PROFILE environ) ''logs'' s = (Inr (), s1)"
    and "logs_create_log_group aws log_group s1 = (Inl (ClientError r1 op1), s2)"
    and "error_code r1 = Inr code"
    and "code \<noteq> PyStr ''ResourceAlreadyExistsException''"
    and "client_exit aws ''logs'' (Some (ClientError r1 op1)) s2 = (Inr False, s3)"
  shows "put_cloudwatch_log_event_body environ aws (log_group, log_stream, message) s =
           (Inl (ClientError r1 op1), s3)"
  using assms
  by (simp add: put_cloudwatch_log_event_body_def async_with_def bind_step_def eval_step_def
        try_create_other_code)

text \<open>
  C10. The claim: \<^verbatim>\<open>put_cloudwatch_log_event\<close> suppresses
  \<^verbatim>\<open>'ResourceAlreadyExistsException'\<close> from the two creation calls, still writes the log
  event, and lets other codes propagate. In the code the name is bound to the coroutine
  object returned by the decorator, so \<^verbatim>\<open>await put_cloudwatch_log_event(log_group,
  log_stream, message)\<close> raises \<^verbatim>\<open>TypeError\<close> for every input; no creation call is made and
  no log event is written.
\<close>

theorem put_cloudwatch_log_event_is_not_callable:
  "await_call (put_cloudwatch_log_event environ aws) (log_group, log_stream, message) s =
     (Inl (TypeError '''coroutine' object is not callable''), s)"
  by (simp add: put_cloudwatch_log_event_def await_call_def handle_aws_errors_def)

end
